theory Spec2Isabelle
  imports Complex_Main "HOL-Library.AList" "HOL-Library.Sublist"
begin

section \<open>Data model of the retrieval core (src/graph/graph_rag.py)\<close>

text \<open>
  Every retrieval method of \<^verbatim>\<open>GraphRAG\<close> returns a list of dictionaries with the keys
  \<^verbatim>\<open>id, title, category, content, knowledge_base_name\<close> and one more key that depends on
  the channel: \<^verbatim>\<open>similarity\<close> (semantic_search), \<^verbatim>\<open>score\<close> (keyword_search) or
  \<^verbatim>\<open>distance\<close> (get_related_entries). The key \<^verbatim>\<open>id\<close> is the field \<open>entry_id\<close> here,
  since \<open>id\<close> is the identity function of HOL. Scores are Python floats; they are
  modelled as real numbers, distances as integers.
\<close>

record entry =
  entry_id :: string
  title :: string
  category :: string
  content :: string
  knowledge_base_name :: string

record semantic_result = entry +
  similarity :: real

record keyword_result = entry +
  score :: real

record related_result = entry +
  distance :: int

text \<open>
  The dictionary stored in \<^verbatim>\<open>all_results\<close> is \<^verbatim>\<open>{**result, 'semantic_score': ..,
  'keyword_score': .., 'related_score': ..}\<close>: the keys of the channel result that created
  it (its channel key is kept in \<open>channel_key\<close>) and the three channel scores. The loop
  at lines 147-151 adds the key \<^verbatim>\<open>combined_score\<close>.
\<close>

datatype channel_key = Similarity real | Score real | Distance int

record merged_hit = entry +
  channel_key :: channel_key
  semantic_score :: real
  keyword_score :: real
  related_score :: real

record scored_hit = merged_hit +
  combined_score :: real

datatype request_exception =
    ConnectionError string
  | Timeout string
  | HTTPError string
  | JSONDecodeError string

datatype exn =
    ZeroDivisionError
  | AttributeError
  | RequestException request_exception

section \<open>Score fusion: the body of hybrid_search, lines 113-157\<close>

text \<open>Python's \<^verbatim>\<open>a / b\<close> on integers: a float, or ZeroDivisionError when \<open>b\<close> is 0.\<close>

definition truediv :: "int \<Rightarrow> int \<Rightarrow> exn + real" where
  "truediv a b = (if b = 0 then Inl ZeroDivisionError else Inr (real_of_int a / real_of_int b))"

text \<open>Line 136: \<^verbatim>\<open>related_score = 1 / result['distance'] if result['distance'] > 0 else 0\<close>.\<close>

definition related_score_of :: "int \<Rightarrow> exn + real" where
  "related_score_of d = (if d > 0 then truediv 1 d else Inr 0)"

text \<open>The score that line 136 assigns to a distance.\<close>

definition related_value :: "int \<Rightarrow> real" where
  "related_value d = (case related_score_of d of Inr s \<Rightarrow> s | Inl e \<Rightarrow> 0)"

text \<open>
  \<^verbatim>\<open>all_results\<close> is a Python dict keyed by entity identifier. A dict keeps its keys
  in insertion order, and assigning to a key that is present replaces the value where it
  stands: it is an association list with distinct keys, and \<open>AList.update\<close> is the
  assignment \<^verbatim>\<open>all_results[k] = v\<close>.
\<close>

type_synonym results_dict = "(string \<times> merged_hit) list"

definition from_semantic :: "semantic_result \<Rightarrow> merged_hit" where
  "from_semantic r =
     \<lparr>entry_id = entry_id r, title = title r, category = category r, content = content r,
      knowledge_base_name = knowledge_base_name r, channel_key = Similarity (similarity r),
      semantic_score = similarity r, keyword_score = 0, related_score = 0\<rparr>"

definition from_keyword :: "keyword_result \<Rightarrow> merged_hit" where
  "from_keyword r =
     \<lparr>entry_id = entry_id r, title = title r, category = category r, content = content r,
      knowledge_base_name = knowledge_base_name r, channel_key = Score (score r),
      semantic_score = 0, keyword_score = score r, related_score = 0\<rparr>"

definition from_related :: "related_result \<Rightarrow> real \<Rightarrow> merged_hit" where
  "from_related r s =
     \<lparr>entry_id = entry_id r, title = title r, category = category r, content = content r,
      knowledge_base_name = knowledge_base_name r, channel_key = Distance (distance r),
      semantic_score = 0, keyword_score = 0, related_score = s\<rparr>"

text \<open>The body of the loop at lines 115-121.\<close>

definition add_semantic :: "semantic_result \<Rightarrow> results_dict \<Rightarrow> results_dict" where
  "add_semantic r all_results = AList.update (entry_id r) (from_semantic r) all_results"

text \<open>The body of the loop at lines 123-132.\<close>

definition add_keyword :: "keyword_result \<Rightarrow> results_dict \<Rightarrow> results_dict" where
  "add_keyword r all_results =
     (if entry_id r \<in> set (map fst all_results)
      then AList.map_entry (entry_id r) (\<lambda>h. h\<lparr>keyword_score := score r\<rparr>) all_results
      else AList.update (entry_id r) (from_keyword r) all_results)"

text \<open>The body of the loop at lines 134-145, after the score of line 136 is computed.\<close>

definition add_related :: "related_result \<Rightarrow> real \<Rightarrow> results_dict \<Rightarrow> results_dict" where
  "add_related r s all_results =
     (if entry_id r \<in> set (map fst all_results)
      then AList.map_entry (entry_id r) (\<lambda>h. h\<lparr>related_score := s\<rparr>) all_results
      else AList.update (entry_id r) (from_related r s) all_results)"

fun related_loop :: "related_result list \<Rightarrow> results_dict \<Rightarrow> exn + results_dict" where
  "related_loop [] all_results = Inr all_results"
| "related_loop (r # rs) all_results =
     (case related_score_of (distance r) of
        Inl e \<Rightarrow> Inl e
      | Inr s \<Rightarrow> related_loop rs (add_related r s all_results))"

text \<open>Lines 113-145: the three loops that fill \<^verbatim>\<open>all_results\<close>.\<close>

definition merge_channels ::
  "semantic_result list \<Rightarrow> keyword_result list \<Rightarrow> related_result list \<Rightarrow> exn + results_dict" where
  "merge_channels semantic_results keyword_results related_entries_results =
     related_loop related_entries_results
       (fold add_keyword keyword_results (fold add_semantic semantic_results []))"

text \<open>Lines 147-151: each value of the dict gets its \<^verbatim>\<open>combined_score\<close>.\<close>

definition add_combined :: "merged_hit \<Rightarrow> scored_hit" where
  "add_combined h =
     \<lparr>entry_id = entry_id h, title = title h, category = category h, content = content h,
      knowledge_base_name = knowledge_base_name h, channel_key = channel_key h,
      semantic_score = semantic_score h, keyword_score = keyword_score h,
      related_score = related_score h,
      combined_score = semantic_score h * 0.5 + keyword_score h * 0.4 + related_score h * 0.1\<rparr>"

definition dict_values :: "results_dict \<Rightarrow> scored_hit list" where
  "dict_values all_results = map (\<lambda>kv. add_combined (snd kv)) all_results"

text \<open>
  Lines 153-155: \<^verbatim>\<open>sorted(.., key=lambda x: x['combined_score'], reverse=True)\<close>. Python's
  sort is stable, also with \<^verbatim>\<open>reverse=True\<close>: hits with equal keys keep their order. So
  is the insertion sort \<open>sort_key\<close> on the negated key.
\<close>

definition sorted_results :: "scored_hit list \<Rightarrow> scored_hit list" where
  "sorted_results hits = sort_key (\<lambda>h. - combined_score h) hits"

text \<open>
  Line 157: the slice \<^verbatim>\<open>xs[:k]\<close>. A negative \<open>k\<close> counts from the end of the list, so
  \<^verbatim>\<open>xs[:-1]\<close> is the list without its last element.
\<close>

definition slice_to :: "'a list \<Rightarrow> int \<Rightarrow> 'a list" where
  "slice_to xs k = (if 0 \<le> k then take (nat k) xs else take (nat (int (length xs) + k)) xs)"

definition fuse ::
  "semantic_result list \<Rightarrow> keyword_result list \<Rightarrow> related_result list \<Rightarrow> int
     \<Rightarrow> exn + scored_hit list" where
  "fuse semantic_results keyword_results related_entries_results top_k =
     (case merge_channels semantic_results keyword_results related_entries_results of
        Inl e \<Rightarrow> Inl e
      | Inr all_results \<Rightarrow> Inr (slice_to (sorted_results (dict_values all_results)) top_k))"

section \<open>hybrid_search, lines 96-157\<close>

text \<open>
  The retrieval methods of the object run queries on the graph store, and
  generate_answer_ollama posts to the generation service. \<open>graph_rag\<close> is the object
  \<^verbatim>\<open>self\<close>: what each of these calls returns, as a function of its arguments. The
  \<^verbatim>\<open>print\<close> statements of hybrid_search write to the standard output and change
  nothing else; they are left out. Every function below returns, next to its value, the
  calls it made, in order. A retrieval method that raises (the store cannot be reached)
  ends the request before any fusion takes place; the fields of \<open>graph_rag\<close> describe
  the calls that return.
\<close>

record generate_options =
  temperature :: real
  num_predict :: int
  opt_top_k :: int
  top_p :: real

record payload =
  model :: string
  prompt :: string
  stream :: bool
  options :: generate_options

datatype json = JString string | JObject "(string \<times> json) list" | JOther

record response =
  status_code :: int
  http_error :: string
  json_body :: "string + json"

record graph_rag =
  semantic_search :: "string \<Rightarrow> int \<Rightarrow> semantic_result list"
  keyword_search :: "string \<Rightarrow> int \<Rightarrow> keyword_result list"
  get_related_entries :: "string \<Rightarrow> int \<Rightarrow> related_result list"
  ollama_url :: string
  model_name :: string
  requests_post :: "string \<Rightarrow> payload \<Rightarrow> int \<Rightarrow> request_exception + response"

datatype call =
    SemanticSearch string int
  | KeywordSearch string int
  | GetRelatedEntries string int
  | BuildContext "scored_hit list" int
  | GenerateAnswerOllama string string
  | RequestsPost string payload int

text \<open>Lines 105-108: the relational expansion, seeded by the first semantic hit.\<close>

definition expand_top_hit :: "graph_rag \<Rightarrow> semantic_result list \<Rightarrow> related_result list \<times> call list" where
  "expand_top_hit self semantic_results =
     (case semantic_results of
        [] \<Rightarrow> ([], [])
      | top_hit # _ \<Rightarrow>
          (get_related_entries self (entry_id top_hit) 1,
           [GetRelatedEntries (entry_id top_hit) 1]))"

definition hybrid_search ::
  "graph_rag \<Rightarrow> string \<Rightarrow> int \<Rightarrow> (exn + scored_hit list) \<times> call list" where
  "hybrid_search self question top_k =
     (let semantic_results = semantic_search self question 20;
          keyword_results = keyword_search self question 5;
          (related_entries_results, related_calls) = expand_top_hit self semantic_results
      in (fuse semantic_results keyword_results related_entries_results top_k,
          [SemanticSearch question 20, KeywordSearch question 5] @ related_calls))"

section \<open>build_context, lines 159-176\<close>

definition newline :: char where
  "newline = CHR 0x0A"

definition digit_char :: "nat \<Rightarrow> char" where
  "digit_char d = char_of (48 + d)"

text \<open>Python's \<^verbatim>\<open>str\<close> of a non-negative integer: its decimal digits.\<close>

fun str_nat :: "nat \<Rightarrow> string" where
  "str_nat n = (if n < 10 then [digit_char n] else str_nat (n div 10) @ [digit_char (n mod 10)])"

text \<open>Lines 164-168: the block of the entry at position \<open>i\<close> (counted from 1).\<close>

definition format_part :: "nat \<Rightarrow> 'a entry_scheme \<Rightarrow> string" where
  "format_part i e =
     ''[Source '' @ str_nat i @ ''] Knowledge Base: '' @ knowledge_base_name e @ [newline]
     @ ''Entry: '' @ title e @ '' (Category: '' @ category e @ '')'' @ [newline]
     @ ''Content: '' @ content e @ [newline, newline]"

text \<open>
  The loop of lines 163-174, from the entry at position \<open>i\<close> on, with the parts
  collected and their total length. \<^verbatim>\<open>break\<close> returns what is collected.
\<close>

fun context_loop :: "nat \<Rightarrow> 'a entry_scheme list \<Rightarrow> int \<Rightarrow> string list \<Rightarrow> int \<Rightarrow> string list" where
  "context_loop i [] max_length context_parts current_length = context_parts"
| "context_loop i (e # es) max_length context_parts current_length =
     (let part = format_part i e in
      if current_length + int (length part) > max_length then context_parts
      else context_loop (i + 1) es max_length (context_parts @ [part])
             (current_length + int (length part)))"

definition build_context :: "'a entry_scheme list \<Rightarrow> int \<Rightarrow> string" where
  "build_context entries max_length = concat (context_loop 1 entries max_length [] 0)"

section \<open>generate_answer_ollama, lines 178-226\<close>

definition join_lines :: "string list \<Rightarrow> string" where
  "join_lines ls = concat (map (\<lambda>l. l @ [newline]) (butlast ls)) @ last ls"

definition system_prompt :: string where
  "system_prompt = join_lines
     [''You are an AI assistant providing information about animals.'',
      ''            Your role is to provide accurate, helpful information based on the provided context.'',
      [],
      ''            Guidelines:'',
      ''            1. Answer questions based ONLY on the provided context.'',
      ''            2. Cite specific entries and categories when providing information.'',
      ''            3. If the context doesn't contain enough information, clearly state that.'',
      ''            4. Use clear, simple language.'',
      ''            5. Be precise and avoid speculation.'',
      [],
      ''            Format your responses clearly with:'',
      ''            - Direct answer to the question'',
      ''            - Relevant entry/category references'',
      ''            - Plain language explanation'',
      ''            - Any important caveats or limitations'']"

definition user_prompt :: "string \<Rightarrow> string \<Rightarrow> string" where
  "user_prompt question ctx = join_lines
     [''Question: '' @ question,
      [],
      ''            Knowledge Base Context:'',
      ''            '' @ ctx,
      [],
      ''            Please provide a comprehensive answer based on the above knowledge base context.'']"

definition make_payload :: "graph_rag \<Rightarrow> string \<Rightarrow> string \<Rightarrow> payload" where
  "make_payload self question ctx =
     \<lparr>model = model_name self,
      prompt = system_prompt @ [newline, newline] @ user_prompt question ctx,
      stream = False,
      options = \<lparr>temperature = 0.3, num_predict = 1000, opt_top_k = 40, top_p = 0.9\<rparr>\<rparr>"

text \<open>
  The requests library raises its own exceptions, all subclasses of
  \<^verbatim>\<open>RequestException\<close>: \<^verbatim>\<open>post\<close> raises on a connection failure or when the timeout
  expires, \<^verbatim>\<open>raise_for_status\<close> raises \<^verbatim>\<open>HTTPError\<close> on a status from 400 to 599,
  and \<^verbatim>\<open>json\<close> raises \<^verbatim>\<open>JSONDecodeError\<close> on a body that is not JSON. \<open>str_exception\<close>
  is \<^verbatim>\<open>str(e)\<close>.
\<close>

fun str_exception :: "request_exception \<Rightarrow> string" where
  "str_exception (ConnectionError m) = m"
| "str_exception (Timeout m) = m"
| "str_exception (HTTPError m) = m"
| "str_exception (JSONDecodeError m) = m"

definition raise_for_status :: "response \<Rightarrow> exn + unit" where
  "raise_for_status r =
     (if 400 \<le> status_code r \<and> status_code r < 600
      then Inl (RequestException (HTTPError (http_error r))) else Inr ())"

definition response_json :: "response \<Rightarrow> exn + json" where
  "response_json r =
     (case json_body r of
        Inl m \<Rightarrow> Inl (RequestException (JSONDecodeError m))
      | Inr j \<Rightarrow> Inr j)"

text \<open>
  \<^verbatim>\<open>result.get('response', 'No response generated')\<close>: a lookup with a default when the
  decoded body is an object, AttributeError on any other JSON value.
\<close>

fun dict_get :: "json \<Rightarrow> string \<Rightarrow> json \<Rightarrow> exn + json" where
  "dict_get (JObject kvs) k dflt = Inr (case map_of kvs k of Some v \<Rightarrow> v | None \<Rightarrow> dflt)"
| "dict_get j k dflt = Inl AttributeError"

text \<open>The body of the \<^verbatim>\<open>try\<close>, lines 215-223.\<close>

definition try_generate :: "graph_rag \<Rightarrow> payload \<Rightarrow> exn + json" where
  "try_generate self p =
     (case requests_post self (ollama_url self @ ''/api/generate'') p 120 of
        Inl e \<Rightarrow> Inl (RequestException e)
      | Inr resp \<Rightarrow>
          (case raise_for_status resp of
             Inl e \<Rightarrow> Inl e
           | Inr u \<Rightarrow>
               (case response_json resp of
                  Inl e \<Rightarrow> Inl e
                | Inr result \<Rightarrow> dict_get result ''response'' (JString ''No response generated''))))"

text \<open>The \<^verbatim>\<open>except requests.exceptions.RequestException\<close> clause catches that class only.\<close>

definition generate_answer_ollama ::
  "graph_rag \<Rightarrow> string \<Rightarrow> string \<Rightarrow> (exn + json) \<times> call list" where
  "generate_answer_ollama self question ctx =
     (let p = make_payload self question ctx in
      (case try_generate self p of
         Inl (RequestException e) \<Rightarrow>
           Inr (JString (''Error communicating with Ollama: '' @ str_exception e))
       | Inl e \<Rightarrow> Inl e
       | Inr v \<Rightarrow> Inr v,
       [RequestsPost (ollama_url self @ ''/api/generate'') p 120]))"

section \<open>query, lines 228-259\<close>

record source =
  knowledge_base :: string
  entry_title :: string
  source_category :: string
  relevance_score :: real

text \<open>
  The dictionary that query returns: the key \<^verbatim>\<open>context\<close> is absent from the
  not-found answer, so the field is optional.
\<close>

record query_result =
  answer :: json
  sources :: "source list"
  context_text :: "string option"

definition not_found_answer :: string where
  "not_found_answer = ''I couldn't find relevant information in the knowledge base for your question. Please rephrase or ask about specific animal topics.''"

definition source_of :: "scored_hit \<Rightarrow> source" where
  "source_of e =
     \<lparr>knowledge_base = knowledge_base_name e, entry_title = title e,
      source_category = category e, relevance_score = combined_score e\<rparr>"

definition query :: "graph_rag \<Rightarrow> string \<Rightarrow> (exn + query_result) \<times> call list" where
  "query self user_question =
     (let (found, search_calls) = hybrid_search self user_question 5 in
      case found of
        Inl e \<Rightarrow> (Inl e, search_calls)
      | Inr relevant_entries \<Rightarrow>
          if relevant_entries = []
          then (Inr \<lparr>answer = JString not_found_answer, sources = [], context_text = None\<rparr>,
                search_calls)
          else
            (let ctx = build_context relevant_entries 4000;
                 (generated, post_calls) = generate_answer_ollama self user_question ctx;
                 calls = search_calls @ [BuildContext relevant_entries 4000,
                           GenerateAnswerOllama user_question ctx] @ post_calls
             in case generated of
                  Inl e \<Rightarrow> (Inl e, calls)
                | Inr a \<Rightarrow>
                    (Inr \<lparr>answer = a, sources = map source_of relevant_entries,
                          context_text = Some ctx\<rparr>, calls)))"

section \<open>get_related_entries, lines 77-94\<close>

text \<open>
  get_related_entries sends one Cypher query to the graph store and returns its rows.
  The store is a property graph as graph_builder.py fills it: nodes with one label and
  their properties, and directed, typed relationships between nodes given by their
  positions in \<open>nodes\<close>. A relationship is identified by its position in
  \<open>relationships\<close>. For a store with graph \<open>g\<close>, the field \<open>get_related_entries\<close>
  of \<open>graph_rag\<close> is \<open>get_related_entries_on g\<close>.
\<close>

datatype label = Entry | KnowledgeBase | Concept | Fact

datatype rel_type = CONTAINS | RELATES_TO | RELATED_TO | SIMILAR_TO | HAS_FACT

record node =
  node_label :: label
  prop_id :: string
  prop_title :: string
  prop_category :: string
  prop_content :: string
  prop_name :: string

record graph =
  nodes :: "node list"
  relationships :: "(nat \<times> rel_type \<times> nat) list"

text \<open>
  \<^verbatim>\<open>-[:SIMILAR_TO|RELATES_TO|RELATED_TO*1..depth]->(related)\<close>: a variable-length pattern
  matches every path of 1 to \<open>depth\<close> relationships of these types, followed along their
  direction, in which no relationship occurs twice. \<open>paths_from g n used v\<close> lists the
  paths that extend one that ends in node \<open>v\<close> and has used the relationships \<open>used\<close>
  by at most \<open>n\<close> more relationships: the end node and the length of each.
\<close>

definition traversed :: "rel_type \<Rightarrow> bool" where
  "traversed t = (t = SIMILAR_TO \<or> t = RELATES_TO \<or> t = RELATED_TO)"

fun paths_from :: "graph \<Rightarrow> nat \<Rightarrow> nat list \<Rightarrow> nat \<Rightarrow> (nat \<times> nat) list" where
  "paths_from g 0 used v = []"
| "paths_from g (Suc n) used v =
     concat (map (\<lambda>i.
        (case relationships g ! i of
           (s, t, e) \<Rightarrow>
             if s = v \<and> traversed t \<and> i \<notin> set used \<and> e < length (nodes g)
             then (e, length used + 1) # paths_from g n (i # used) e
             else []))
       [0..<length (relationships g)])"

text \<open>
  \<^verbatim>\<open>MATCH (kb:KnowledgeBase)-[:CONTAINS]->(related)\<close>: one match for each CONTAINS
  relationship from a knowledge base to the node.
\<close>

definition containing_bases :: "graph \<Rightarrow> nat \<Rightarrow> node list" where
  "containing_bases g v =
     concat (map (\<lambda>(s, t, e).
        if e = v \<and> t = CONTAINS \<and> s < length (nodes g) \<and> node_label (nodes g ! s) = KnowledgeBase
        then [nodes g ! s] else [])
       (relationships g))"

text \<open>The row that \<^verbatim>\<open>RETURN\<close> builds from one match.\<close>

definition related_row :: "node \<Rightarrow> node \<Rightarrow> nat \<Rightarrow> related_result" where
  "related_row related kb len =
     \<lparr>entry_id = prop_id related, title = prop_title related, category = prop_category related,
      content = prop_content related, knowledge_base_name = prop_name kb,
      distance = int len\<rparr>"

definition related_matches :: "graph \<Rightarrow> string \<Rightarrow> int \<Rightarrow> related_result list" where
  "related_matches g seed depth =
     concat (map (\<lambda>start.
        if node_label (nodes g ! start) = Entry \<and> prop_id (nodes g ! start) = seed
        then concat (map (\<lambda>(e, len).
               if node_label (nodes g ! e) = Entry
               then map (\<lambda>kb. related_row (nodes g ! e) kb len) (containing_bases g e)
               else [])
             (paths_from g (nat depth) [] start))
        else [])
       [0..<length (nodes g)])"

text \<open>
  \<^verbatim>\<open>RETURN DISTINCT .. ORDER BY distance LIMIT 5\<close>: equal rows are returned once, the
  rows are ordered by their distance, and the first five are kept. The store is free in
  the order of rows with equal distance; the model keeps the order of the matches.
\<close>

definition get_related_entries_on :: "graph \<Rightarrow> string \<Rightarrow> int \<Rightarrow> related_result list" where
  "get_related_entries_on g seed depth =
     take 5 (sort_key distance (remdups (related_matches g seed depth)))"

section \<open>Notions used in the statements\<close>

text \<open>
  The score a channel has for an entity: the channel's hits are given as pairs of an
  identifier and a score; the last hit for the identifier counts, and the score is zero
  when the channel has no hit for it.
\<close>

definition channel_score :: "(string \<times> real) list \<Rightarrow> string \<Rightarrow> real" where
  "channel_score surfaced k = (case map_of (rev surfaced) k of Some s \<Rightarrow> s | None \<Rightarrow> 0)"

text \<open>
  \<open>new_keys seen ks\<close>: the identifiers of \<open>ks\<close> that are not among \<open>seen\<close>, each once,
  in the order of their first occurrence.
\<close>

fun new_keys :: "'a list \<Rightarrow> 'a list \<Rightarrow> 'a list" where
  "new_keys seen [] = []"
| "new_keys seen (k # ks) =
     (if k \<in> set seen then new_keys seen ks else k # new_keys (seen @ [k]) ks)"

text \<open>A dict of hits: its keys are distinct, and each hit is stored under its identifier.\<close>

definition well_keyed :: "results_dict \<Rightarrow> bool" where
  "well_keyed d = (distinct (map fst d) \<and> list_all (\<lambda>kv. entry_id (snd kv) = fst kv) d)"

text \<open>One score of the hit stored under a key, zero when the key is absent.\<close>

definition field_view :: "(merged_hit \<Rightarrow> real) \<Rightarrow> results_dict \<Rightarrow> string \<Rightarrow> real" where
  "field_view sel d k = (case map_of d k of Some h \<Rightarrow> sel h | None \<Rightarrow> 0)"

text \<open>Combined scores do not increase along a list of hits.\<close>

fun non_increasing :: "scored_hit list \<Rightarrow> bool" where
  "non_increasing [] = True"
| "non_increasing [h] = True"
| "non_increasing (h # h' # hs) = (combined_score h' \<le> combined_score h \<and> non_increasing (h' # hs))"

text \<open>The calls of the relational expander in a list of calls.\<close>

fun is_expander_call :: "call \<Rightarrow> bool" where
  "is_expander_call (GetRelatedEntries seed depth) = True"
| "is_expander_call c = False"

text \<open>The calls that query makes after the search: the context assembler and the generation service.\<close>

fun is_generation_call :: "call \<Rightarrow> bool" where
  "is_generation_call (BuildContext entries max_length) = True"
| "is_generation_call (GenerateAnswerOllama question ctx) = True"
| "is_generation_call (RequestsPost url p timeout) = True"
| "is_generation_call c = False"

text \<open>The blocks of a ranked list, in ranked order, numbered from \<open>i\<close>.\<close>

fun rendered_blocks :: "nat \<Rightarrow> 'a entry_scheme list \<Rightarrow> string list" where
  "rendered_blocks i [] = []"
| "rendered_blocks i (e # es) = format_part i e # rendered_blocks (i + 1) es"

text \<open>
  A failure of the call to the generation service, and the exception it raises:
  \<^verbatim>\<open>requests.post\<close> raises (no connection, or the timeout of 120 seconds expires), the
  service answers with an error status, or its answer is not JSON.
\<close>

definition generation_failure :: "graph_rag \<Rightarrow> payload \<Rightarrow> request_exception option" where
  "generation_failure self p =
     (case requests_post self (ollama_url self @ ''/api/generate'') p 120 of
        Inl e \<Rightarrow> Some e
      | Inr resp \<Rightarrow>
          if 400 \<le> status_code resp \<and> status_code resp < 600
          then Some (HTTPError (http_error resp))
          else (case json_body resp of
                  Inl m \<Rightarrow> Some (JSONDecodeError m)
                | Inr j \<Rightarrow> None))"

section \<open>Example inputs\<close>

text \<open>
  The scenario of the specification: the semantic and the keyword channel both find the
  entry Lion, the relational expansion of Lion finds Hyena at distance 1.
\<close>

definition lion_entry :: entry where
  "lion_entry = \<lparr>entry_id = ''Animals:Entry:Lion'', title = ''Lion'', category = ''Mammal'',
     content = ''Lions eat meat.'', knowledge_base_name = ''Animals''\<rparr>"

definition hyena_entry :: entry where
  "hyena_entry = \<lparr>entry_id = ''Animals:Entry:Hyena'', title = ''Hyena'', category = ''Mammal'',
     content = ''Hyenas scavenge.'', knowledge_base_name = ''Animals''\<rparr>"

definition lion_semantic :: semantic_result where
  "lion_semantic = entry.extend lion_entry (semantic_result.fields (82 / 100))"

definition lion_keyword :: keyword_result where
  "lion_keyword = entry.extend lion_entry (keyword_result.fields (31 / 10))"

definition hyena_related :: related_result where
  "hyena_related = entry.extend hyena_entry (related_result.fields 1)"

definition lion_answer :: response where
  "lion_answer = \<lparr>status_code = 200, http_error = [],
     json_body = Inr (JObject [(''response'', JString ''Lions eat meat.'')])\<rparr>"

definition lion_rag :: graph_rag where
  "lion_rag =
     \<lparr>semantic_search = (\<lambda>q k. [lion_semantic]),
      keyword_search = (\<lambda>q k. [lion_keyword]),
      get_related_entries = (\<lambda>seed depth. [hyena_related]),
      ollama_url = ''http://localhost:11434'',
      model_name = ''Llama3.1:8b'',
      requests_post = (\<lambda>url p timeout. Inr lion_answer)\<rparr>"

definition lion_hit :: scored_hit where
  "lion_hit = \<lparr>entry_id = ''Animals:Entry:Lion'', title = ''Lion'', category = ''Mammal'',
     content = ''Lions eat meat.'', knowledge_base_name = ''Animals'',
     channel_key = Similarity (82 / 100), semantic_score = 82 / 100, keyword_score = 31 / 10,
     related_score = 0, combined_score = 165 / 100\<rparr>"

definition hyena_hit :: scored_hit where
  "hyena_hit = \<lparr>entry_id = ''Animals:Entry:Hyena'', title = ''Hyena'', category = ''Mammal'',
     content = ''Hyenas scavenge.'', knowledge_base_name = ''Animals'',
     channel_key = Distance 1, semantic_score = 0, keyword_score = 0,
     related_score = 1, combined_score = 1 / 10\<rparr>"

text \<open>A store with no entries, and a generation service that is down.\<close>

definition empty_rag :: graph_rag where
  "empty_rag = lion_rag\<lparr>semantic_search := (\<lambda>q k. []), keyword_search := (\<lambda>q k. [])\<rparr>"

definition offline_rag :: graph_rag where
  "offline_rag = lion_rag\<lparr>requests_post := (\<lambda>url p timeout. Inl (Timeout ''Read timed out.''))\<rparr>"

text \<open>A second expansion of Lion: two entries at distance 1, which tie in the ranking.\<close>

definition leopard_related :: related_result where
  "leopard_related =
     \<lparr>entry_id = ''Animals:Entry:Leopard'', title = ''Leopard'', category = ''Mammal'',
      content = ''Leopards climb.'', knowledge_base_name = ''Animals'', distance = 1\<rparr>"

definition leopard_hit :: scored_hit where
  "leopard_hit = \<lparr>entry_id = ''Animals:Entry:Leopard'', title = ''Leopard'', category = ''Mammal'',
     content = ''Leopards climb.'', knowledge_base_name = ''Animals'',
     channel_key = Distance 1, semantic_score = 0, keyword_score = 0,
     related_score = 1, combined_score = 1 / 10\<rparr>"

definition tie_rag :: graph_rag where
  "tie_rag = lion_rag\<lparr>get_related_entries := (\<lambda>seed depth. [hyena_related, leopard_related])\<rparr>"

text \<open>
  A knowledge base as graph_builder.py ingests it: Lion lists Hyena and Leopard among its
  related animals, Leopard lists Hyena.
\<close>

definition animal :: "string \<Rightarrow> node" where
  "animal t = \<lparr>node_label = Entry, prop_id = ''Animals:Entry:'' @ t, prop_title = t,
     prop_category = ''Mammal'', prop_content = t @ '' facts.'', prop_name = []\<rparr>"

definition animals_kb :: node where
  "animals_kb = \<lparr>node_label = KnowledgeBase, prop_id = [], prop_title = [],
     prop_category = [], prop_content = [], prop_name = ''Animals''\<rparr>"

definition savanna :: graph where
  "savanna = \<lparr>nodes = [animals_kb, animal ''Lion'', animal ''Hyena'', animal ''Leopard''],
     relationships = [(0, CONTAINS, 1), (0, CONTAINS, 2), (0, CONTAINS, 3),
                      (1, RELATED_TO, 2), (1, RELATED_TO, 3), (3, RELATED_TO, 2)]\<rparr>"

text \<open>An expansion that leads back to Lion: all three channels produce the same entity.\<close>

definition lion_related :: related_result where
  "lion_related = entry.extend lion_entry (related_result.fields 1)"

definition merged_rag :: graph_rag where
  "merged_rag = lion_rag\<lparr>get_related_entries := (\<lambda>seed depth. [lion_related])\<rparr>"

definition lion_merged_hit :: scored_hit where
  "lion_merged_hit = \<lparr>entry_id = ''Animals:Entry:Lion'', title = ''Lion'', category = ''Mammal'',
     content = ''Lions eat meat.'', knowledge_base_name = ''Animals'',
     channel_key = Similarity (82 / 100), semantic_score = 82 / 100, keyword_score = 31 / 10,
     related_score = 1, combined_score = 175 / 100\<rparr>"

section \<open>Properties\<close>

text \<open>
  C3. The distance-to-score transform of the relational channel never raises
  ZeroDivisionError: for every integer distance it returns a score, which is
  \<open>1 / distance\<close> when the distance is positive (1 for distance 1, one half for distance 2)
  and 0 when the distance is 0.
\<close>

theorem related_score_transform:
  "(\<exists>s. related_score_of d = Inr s)
   \<and> (d > 0 \<longrightarrow> related_score_of d = Inr (1 / real_of_int d))
   \<and> (d = 0 \<longrightarrow> related_score_of d = Inr 0)
   \<and> related_score_of 1 = Inr 1
   \<and> related_score_of 2 = Inr (1 / 2)"
  by (simp add: related_score_of_def truediv_def)

theorem related_score_transform_witness:
  "(\<exists>s. related_score_of 2 = Inr s)
   \<and> related_score_of 2 = Inr (1 / 2)
   \<and> related_score_of 0 = Inr 0"
  using related_score_transform [of 2] related_score_transform [of 0] by simp

subsection \<open>The merged dict\<close>

lemmas example_defs = lion_rag_def lion_semantic_def lion_keyword_def hyena_related_def
  lion_entry_def hyena_entry_def entry.defs semantic_result.defs keyword_result.defs
  related_result.defs lion_hit_def hyena_hit_def empty_rag_def offline_rag_def lion_answer_def

lemmas fusion_defs = hybrid_search_def expand_top_hit_def fuse_def merge_channels_def
  add_semantic_def add_keyword_def add_related_def related_score_of_def truediv_def
  from_semantic_def from_keyword_def from_related_def dict_values_def add_combined_def
  sorted_results_def slice_to_def

lemma lion_search:
  "hybrid_search lion_rag q 5 = (Inr [lion_hit, hyena_hit],
     [SemanticSearch q 20, KeywordSearch q 5, GetRelatedEntries ''Animals:Entry:Lion'' 1])"
  by (simp add: example_defs fusion_defs)
lemma related_score_of_value: "related_score_of d = Inr (related_value d)"
  by (simp add: related_value_def related_score_of_def truediv_def)

lemma related_loop_fold:
  "related_loop rs d = Inr (fold (\<lambda>r. add_related r (related_value (distance r))) rs d)"
  by (induction rs arbitrary: d) (simp_all add: related_score_of_value)

lemma list_all_update:
  "list_all P d \<Longrightarrow> P (k, v) \<Longrightarrow> list_all P (AList.update k v d)"
  by (induction d) auto

lemma keyed_map_entry:
  "list_all (\<lambda>kv. entry_id (snd kv) = fst kv) d \<Longrightarrow> (\<And>v. entry_id (f v) = entry_id v)
     \<Longrightarrow> list_all (\<lambda>kv. entry_id (snd kv) = fst kv) (AList.map_entry k f d)"
  by (induction d) auto

lemma well_keyed_add_semantic: "well_keyed d \<Longrightarrow> well_keyed (add_semantic r d)"
  by (simp add: well_keyed_def add_semantic_def distinct_update list_all_update from_semantic_def)

lemma well_keyed_add_keyword: "well_keyed d \<Longrightarrow> well_keyed (add_keyword r d)"
  by (simp add: well_keyed_def add_keyword_def distinct_update distinct_map_entry
      list_all_update keyed_map_entry from_keyword_def)

lemma well_keyed_add_related: "well_keyed d \<Longrightarrow> well_keyed (add_related r s d)"
  by (simp add: well_keyed_def add_related_def distinct_update distinct_map_entry
      list_all_update keyed_map_entry from_related_def)

lemma well_keyed_fold:
  "(\<And>r d. well_keyed d \<Longrightarrow> well_keyed (f r d)) \<Longrightarrow> well_keyed d \<Longrightarrow> well_keyed (fold f rs d)"
  by (induction rs arbitrary: d) simp_all

lemma merge_channels_fold:
  "merge_channels sem kw rel =
     Inr (fold (\<lambda>r. add_related r (related_value (distance r))) rel
           (fold add_keyword kw (fold add_semantic sem [])))"
  by (simp add: merge_channels_def related_loop_fold)

lemma well_keyed_merged:
  "merge_channels sem kw rel = Inr d \<Longrightarrow> well_keyed d"
proof -
  have "well_keyed []" by (simp add: well_keyed_def)
  then have "well_keyed (fold add_semantic sem [])"
    by (simp add: well_keyed_fold well_keyed_add_semantic)
  then have "well_keyed (fold add_keyword kw (fold add_semantic sem []))"
    by (simp add: well_keyed_fold well_keyed_add_keyword)
  then have "well_keyed (fold (\<lambda>r. add_related r (related_value (distance r))) rel
           (fold add_keyword kw (fold add_semantic sem [])))"
    by (simp add: well_keyed_fold well_keyed_add_related)
  then show "merge_channels sem kw rel = Inr d \<Longrightarrow> well_keyed d"
    by (simp add: merge_channels_fold)
qed

lemma in_keys_iff: "k \<in> set (map fst d) \<longleftrightarrow> map_of d k \<noteq> None"
  by (simp add: map_of_eq_None_iff)

lemma view_add_semantic:
  "field_view sel (add_semantic r d) = (field_view sel d)(entry_id r := sel (from_semantic r))"
  by (rule ext) (simp add: field_view_def add_semantic_def update_conv')

lemma view_add_keyword_score:
  "field_view keyword_score (add_keyword r d) = (field_view keyword_score d)(entry_id r := score r)"
  by (rule ext)
    (auto simp: field_view_def add_keyword_def update_conv' map_of_map_entry from_keyword_def
      in_keys_iff simp del: set_map split: option.splits)

lemma view_add_keyword_semantic:
  "field_view semantic_score (add_keyword r d) = field_view semantic_score d"
  by (rule ext)
    (auto simp: field_view_def add_keyword_def update_conv' map_of_map_entry from_keyword_def
      in_keys_iff simp del: set_map split: option.splits)

lemma view_add_keyword_related:
  "field_view related_score (add_keyword r d) = field_view related_score d"
  by (rule ext)
    (auto simp: field_view_def add_keyword_def update_conv' map_of_map_entry from_keyword_def
      in_keys_iff simp del: set_map split: option.splits)

lemma view_add_related_score:
  "field_view related_score (add_related r s d) = (field_view related_score d)(entry_id r := s)"
  by (rule ext)
    (auto simp: field_view_def add_related_def update_conv' map_of_map_entry from_related_def
      in_keys_iff simp del: set_map split: option.splits)

lemma view_add_related_semantic:
  "field_view semantic_score (add_related r s d) = field_view semantic_score d"
  by (rule ext)
    (auto simp: field_view_def add_related_def update_conv' map_of_map_entry from_related_def
      in_keys_iff simp del: set_map split: option.splits)

lemma view_add_related_keyword:
  "field_view keyword_score (add_related r s d) = field_view keyword_score d"
  by (rule ext)
    (auto simp: field_view_def add_related_def update_conv' map_of_map_entry from_related_def
      in_keys_iff simp del: set_map split: option.splits)

lemma view_fold_update:
  assumes "\<And>r d. V (f r d) = (V d)(key r := val r)"
  shows "V (fold f rs d) k =
    (case map_of (rev (map (\<lambda>r. (key r, val r)) rs)) k of Some s \<Rightarrow> s | None \<Rightarrow> V d k)"
  by (induction rs arbitrary: d) (auto simp: assms map_add_def split: option.splits)

lemma view_fold_same:
  assumes "\<And>r d. V (f r d) = V d"
  shows "V (fold f rs d) = V d"
  by (induction rs arbitrary: d) (simp_all add: assms)

lemma view_fold_zero:
  assumes "\<And>r d. V (f r d) = (V d)(key r := 0)" and "\<And>k. V d k = (0::real)"
  shows "V (fold f rs d) k = 0"
  using assms(2) by (induction rs arbitrary: d) (simp_all add: assms(1))

lemma field_view_Nil: "field_view sel [] k = 0"
  by (simp add: field_view_def)

lemma merged_semantic_view:
  assumes "merge_channels sem kw rel = Inr d"
  shows "field_view semantic_score d k = channel_score (map (\<lambda>r. (entry_id r, similarity r)) sem) k"
proof -
  have "field_view semantic_score (fold add_semantic sem []) k
      = channel_score (map (\<lambda>r. (entry_id r, similarity r)) sem) k"
    using view_fold_update [of "field_view semantic_score" add_semantic entry_id similarity sem "[]" k]
    by (simp add: view_add_semantic from_semantic_def channel_score_def field_view_Nil
        cong: option.case_cong)
  moreover have "d = fold (\<lambda>r. add_related r (related_value (distance r))) rel
           (fold add_keyword kw (fold add_semantic sem []))"
    using assms by (simp add: merge_channels_fold)
  ultimately show ?thesis
    by (simp add: view_fold_same view_add_related_semantic view_add_keyword_semantic)
qed

lemma merged_keyword_view:
  assumes "merge_channels sem kw rel = Inr d"
  shows "field_view keyword_score d k = channel_score (map (\<lambda>r. (entry_id r, score r)) kw) k"
proof -
  have z: "\<And>k. field_view keyword_score (fold add_semantic sem []) k = 0"
    by (rule view_fold_zero [where key = entry_id])
      (simp_all add: view_add_semantic from_semantic_def field_view_Nil fun_eq_iff)
  have "field_view keyword_score (fold add_keyword kw (fold add_semantic sem [])) k
      = channel_score (map (\<lambda>r. (entry_id r, score r)) kw) k"
    using view_fold_update [of "field_view keyword_score" add_keyword entry_id score kw
        "fold add_semantic sem []" k]
    by (simp add: view_add_keyword_score channel_score_def z cong: option.case_cong)
  moreover have "d = fold (\<lambda>r. add_related r (related_value (distance r))) rel
           (fold add_keyword kw (fold add_semantic sem []))"
    using assms by (simp add: merge_channels_fold)
  ultimately show ?thesis
    by (simp add: view_fold_same view_add_related_keyword)
qed

lemma merged_related_view:
  assumes "merge_channels sem kw rel = Inr d"
  shows "field_view related_score d k
    = channel_score (map (\<lambda>r. (entry_id r, related_value (distance r))) rel) k"
proof -
  have z: "\<And>k. field_view related_score (fold add_semantic sem []) k = 0"
    by (rule view_fold_zero [where key = entry_id])
      (simp_all add: view_add_semantic from_semantic_def field_view_Nil fun_eq_iff)
  have z': "\<And>k. field_view related_score (fold add_keyword kw (fold add_semantic sem [])) k = 0"
    by (simp add: view_fold_same view_add_keyword_related z)
  have d: "d = fold (\<lambda>r. add_related r (related_value (distance r))) rel
           (fold add_keyword kw (fold add_semantic sem []))"
    using assms by (simp add: merge_channels_fold)
  show ?thesis unfolding d
    using view_fold_update [of "field_view related_score"
        "\<lambda>r. add_related r (related_value (distance r))" entry_id
        "\<lambda>r. related_value (distance r)" rel "fold add_keyword kw (fold add_semantic sem [])" k]
    by (simp add: view_add_related_score channel_score_def z' cong: option.case_cong)
qed

lemma set_slice_to: "set (slice_to xs k) \<subseteq> set xs"
  by (auto simp: slice_to_def dest: in_set_takeD)

lemma fuse_merged:
  "fuse sem kw rel top_k = Inr (slice_to (sorted_results (dict_values
      (fold (\<lambda>r. add_related r (related_value (distance r))) rel
           (fold add_keyword kw (fold add_semantic sem []))))) top_k)"
  by (simp add: fuse_def merge_channels_fold)

lemma fuse_hit_origin:
  assumes "fuse sem kw rel top_k = Inr hits" and "h \<in> set hits"
  obtains d h' where "merge_channels sem kw rel = Inr d" and "map_of d (entry_id h) = Some h'"
    and "h = add_combined h'"
proof -
  obtain d where d: "merge_channels sem kw rel = Inr d"
    by (simp add: merge_channels_fold)
  with assms have "h \<in> set (dict_values d)"
    using set_slice_to [of "sorted_results (dict_values d)" top_k]
    by (auto simp: fuse_def sorted_results_def)
  then obtain k h' where kh: "(k, h') \<in> set d" and h: "h = add_combined h'"
    by (auto simp: dict_values_def)
  have wk: "well_keyed d" using d by (rule well_keyed_merged)
  then have "entry_id h' = k" using kh by (auto simp: well_keyed_def list_all_iff)
  then have "entry_id h = k" using h by (simp add: add_combined_def)
  moreover have "map_of d k = Some h'" using wk kh by (simp add: well_keyed_def)
  ultimately show thesis using that d h by simp
qed

lemma fuse_hit_scores:
  assumes "fuse sem kw rel top_k = Inr hits" and "h \<in> set hits"
  shows "combined_score h = 0.5 * semantic_score h + 0.4 * keyword_score h + 0.1 * related_score h"
    and "semantic_score h = channel_score (map (\<lambda>r. (entry_id r, similarity r)) sem) (entry_id h)"
    and "keyword_score h = channel_score (map (\<lambda>r. (entry_id r, score r)) kw) (entry_id h)"
    and "related_score h
      = channel_score (map (\<lambda>r. (entry_id r, related_value (distance r))) rel) (entry_id h)"
proof -
  from assms obtain d h' where d: "merge_channels sem kw rel = Inr d"
    and m: "map_of d (entry_id h) = Some h'" and h: "h = add_combined h'"
    by (rule fuse_hit_origin)
  show "combined_score h = 0.5 * semantic_score h + 0.4 * keyword_score h + 0.1 * related_score h"
    by (simp add: h add_combined_def)
  show "semantic_score h = channel_score (map (\<lambda>r. (entry_id r, similarity r)) sem) (entry_id h)"
    using merged_semantic_view [OF d, of "entry_id h"] m
    by (simp add: field_view_def h add_combined_def)
  show "keyword_score h = channel_score (map (\<lambda>r. (entry_id r, score r)) kw) (entry_id h)"
    using merged_keyword_view [OF d, of "entry_id h"] m
    by (simp add: field_view_def h add_combined_def)
  show "related_score h
      = channel_score (map (\<lambda>r. (entry_id r, related_value (distance r))) rel) (entry_id h)"
    using merged_related_view [OF d, of "entry_id h"] m
    by (simp add: field_view_def h add_combined_def)
qed

lemma hybrid_search_fuse:
  "fst (hybrid_search self q top_k) =
     fuse (semantic_search self q 20) (keyword_search self q 5)
       (fst (expand_top_hit self (semantic_search self q 20))) top_k"
  by (simp add: hybrid_search_def Let_def split_beta)

text \<open>
  C1. hybrid_search returns a list of hits, and for every hit of it the combined score is
  0.5 times the semantic score plus 0.4 times the keyword score plus 0.1 times the
  related score, where each of the three is the score its channel has for the entity, and
  zero when the channel did not surface the entity.
\<close>

theorem hybrid_search_combined_score:
  "\<exists>hits. fst (hybrid_search self q top_k) = Inr hits \<and>
     (\<forall>h \<in> set hits.
        combined_score h = 0.5 * semantic_score h + 0.4 * keyword_score h + 0.1 * related_score h
      \<and> semantic_score h =
          channel_score (map (\<lambda>r. (entry_id r, similarity r)) (semantic_search self q 20))
            (entry_id h)
      \<and> keyword_score h =
          channel_score (map (\<lambda>r. (entry_id r, score r)) (keyword_search self q 5)) (entry_id h)
      \<and> related_score h =
          channel_score (map (\<lambda>r. (entry_id r, related_value (distance r)))
            (fst (expand_top_hit self (semantic_search self q 20)))) (entry_id h))"
proof -
  obtain hits where hits: "fst (hybrid_search self q top_k) = Inr hits"
    by (simp add: hybrid_search_fuse fuse_merged)
  then have f: "fuse (semantic_search self q 20) (keyword_search self q 5)
       (fst (expand_top_hit self (semantic_search self q 20))) top_k = Inr hits"
    by (simp add: hybrid_search_fuse)
  show ?thesis
    using hits fuse_hit_scores [OF f] by blast
qed

theorem hybrid_search_combined_score_witness:
  "fst (hybrid_search lion_rag ''What do lions eat?'' 5) = Inr [lion_hit, hyena_hit]
   \<and> combined_score hyena_hit
       = 0.5 * semantic_score hyena_hit + 0.4 * keyword_score hyena_hit + 0.1 * related_score hyena_hit
   \<and> semantic_score hyena_hit = 0 \<and> keyword_score hyena_hit = 0 \<and> related_score hyena_hit = 1
   \<and> combined_score lion_hit = 0.5 * (82 / 100) + 0.4 * (31 / 10) + 0.1 * 0"
proof -
  have e: "fst (hybrid_search lion_rag ''What do lions eat?'' 5) = Inr [lion_hit, hyena_hit]"
    by (simp add: lion_search)
  from hybrid_search_combined_score [of lion_rag "''What do lions eat?''" 5]
  have "combined_score hyena_hit
       = 0.5 * semantic_score hyena_hit + 0.4 * keyword_score hyena_hit + 0.1 * related_score hyena_hit"
    by (simp add: e)
  then show ?thesis
    using e by (simp add: lion_hit_def hyena_hit_def)
qed

subsection \<open>Ranking, truncation and the calls of hybrid_search\<close>

lemma sorted_non_increasing:
  "sorted (map (\<lambda>h. - combined_score h) hs) \<Longrightarrow> non_increasing hs"
  by (induction hs rule: non_increasing.induct) simp_all

lemma sorted_slice_to: "sorted (map f xs) \<Longrightarrow> sorted (map f (slice_to xs k))"
  by (simp add: slice_to_def take_map [symmetric])

lemma length_slice_to: "0 \<le> k \<Longrightarrow> int (length (slice_to xs k)) \<le> k"
  by (simp add: slice_to_def)

lemma fuse_ranked:
  assumes "fuse sem kw rel top_k = Inr hits"
  shows "non_increasing hits" and "0 \<le> top_k \<Longrightarrow> int (length hits) \<le> top_k"
proof -
  obtain d where h: "hits = slice_to (sorted_results (dict_values d)) top_k"
    using assms by (auto simp: fuse_def split: sum.splits)
  have "sorted (map (\<lambda>h. - combined_score h) (sorted_results (dict_values d)))"
    by (simp add: sorted_results_def)
  then show "non_increasing hits"
    unfolding h by (intro sorted_non_increasing sorted_slice_to)
  show "0 \<le> top_k \<Longrightarrow> int (length hits) \<le> top_k"
    unfolding h by (rule length_slice_to)
qed

text \<open>
  C2. For every requested number of results top_k (a count, so not negative) and every
  output of the three channels, hybrid_search returns a list of at most top_k hits, and
  the combined scores do not increase from one position of the list to the next.
\<close>

theorem hybrid_search_ranked:
  "\<exists>hits. fst (hybrid_search self q top_k) = Inr hits \<and> non_increasing hits
     \<and> (0 \<le> top_k \<longrightarrow> int (length hits) \<le> top_k)"
proof -
  obtain hits where f: "fuse (semantic_search self q 20) (keyword_search self q 5)
       (fst (expand_top_hit self (semantic_search self q 20))) top_k = Inr hits"
    by (simp add: fuse_merged)
  then show ?thesis
    using fuse_ranked [OF f] by (simp add: hybrid_search_fuse)
qed

theorem hybrid_search_ranked_witness:
  "fst (hybrid_search lion_rag ''What do lions eat?'' 1) = Inr [lion_hit]
   \<and> non_increasing [lion_hit] \<and> (0::int) \<le> 1 \<and> int (length [lion_hit]) \<le> 1"
proof -
  have e: "fst (hybrid_search lion_rag ''What do lions eat?'' 1) = Inr [lion_hit]"
    by (simp add: example_defs fusion_defs)
  from hybrid_search_ranked [of lion_rag "''What do lions eat?''" 1] e
  show ?thesis by simp
qed

lemma distinct_slice_to: "distinct (map f xs) \<Longrightarrow> distinct (map f (slice_to xs k))"
  by (simp add: slice_to_def take_map [symmetric])

lemma distinct_map_sort_key: "distinct (map g xs) \<Longrightarrow> distinct (map g (sort_key f xs))"
  by (simp add: distinct_map)

lemma dict_values_ids: "well_keyed d \<Longrightarrow> map entry_id (dict_values d) = map fst d"
  by (induction d) (auto simp: well_keyed_def dict_values_def add_combined_def)

lemma fuse_distinct:
  assumes "fuse sem kw rel top_k = Inr hits"
  shows "distinct (map entry_id hits)"
proof -
  obtain d where d: "merge_channels sem kw rel = Inr d"
    and h: "hits = slice_to (sorted_results (dict_values d)) top_k"
    using assms by (auto simp: fuse_def split: sum.splits)
  have wk: "well_keyed d" using d by (rule well_keyed_merged)
  then have "distinct (map entry_id (dict_values d))"
    by (simp add: dict_values_ids well_keyed_def)
  then show ?thesis
    unfolding h sorted_results_def by (intro distinct_slice_to distinct_map_sort_key)
qed

text \<open>
  C4. No entity identifier occurs in two hits of the list that hybrid_search returns: an
  entity that several channels produce has one hit, and this hit carries the score of
  each channel that produced the entity (zero for a channel that did not).
\<close>

theorem hybrid_search_unique_hits:
  "\<exists>hits. fst (hybrid_search self q top_k) = Inr hits \<and> distinct (map entry_id hits)
     \<and> (\<forall>h \<in> set hits.
          semantic_score h =
            channel_score (map (\<lambda>r. (entry_id r, similarity r)) (semantic_search self q 20))
              (entry_id h)
        \<and> keyword_score h =
            channel_score (map (\<lambda>r. (entry_id r, score r)) (keyword_search self q 5))
              (entry_id h)
        \<and> related_score h =
            channel_score (map (\<lambda>r. (entry_id r, related_value (distance r)))
              (fst (expand_top_hit self (semantic_search self q 20)))) (entry_id h))"
proof -
  obtain hits where f: "fuse (semantic_search self q 20) (keyword_search self q 5)
       (fst (expand_top_hit self (semantic_search self q 20))) top_k = Inr hits"
    by (simp add: fuse_merged)
  have "fst (hybrid_search self q top_k) = Inr hits"
    using f by (simp add: hybrid_search_fuse)
  moreover have "distinct (map entry_id hits)"
    using f by (rule fuse_distinct)
  ultimately show ?thesis
    using fuse_hit_scores(2-4) [OF f] by blast
qed

lemma merged_search:
  "fst (hybrid_search merged_rag q 5) = Inr [lion_merged_hit]"
  by (simp add: merged_rag_def lion_related_def lion_merged_hit_def example_defs fusion_defs)

theorem hybrid_search_unique_hits_witness:
  "fst (hybrid_search merged_rag ''What do lions eat?'' 5) = Inr [lion_merged_hit]
   \<and> distinct (map entry_id [lion_merged_hit])
   \<and> semantic_score lion_merged_hit = 82 / 100
   \<and> keyword_score lion_merged_hit = 31 / 10
   \<and> related_score lion_merged_hit = 1"
proof -
  have e: "fst (hybrid_search merged_rag ''What do lions eat?'' 5) = Inr [lion_merged_hit]"
    by (rule merged_search)
  have c: "semantic_search merged_rag ''What do lions eat?'' 20 = [lion_semantic]"
      "keyword_search merged_rag ''What do lions eat?'' 5 = [lion_keyword]"
      "fst (expand_top_hit merged_rag [lion_semantic]) = [lion_related]"
    by (simp_all add: merged_rag_def lion_rag_def expand_top_hit_def)
  from hybrid_search_unique_hits [of merged_rag "''What do lions eat?''" 5]
  have "distinct (map entry_id [lion_merged_hit])
     \<and> semantic_score lion_merged_hit =
          channel_score [(entry_id lion_semantic, similarity lion_semantic)]
            (entry_id lion_merged_hit)
     \<and> keyword_score lion_merged_hit =
          channel_score [(entry_id lion_keyword, score lion_keyword)] (entry_id lion_merged_hit)
     \<and> related_score lion_merged_hit =
          channel_score [(entry_id lion_related, related_value (distance lion_related))]
            (entry_id lion_merged_hit)"
    by (simp add: e c)
  then show ?thesis
    using e
    by (simp add: channel_score_def related_value_def related_score_of_def truediv_def
        lion_related_def lion_merged_hit_def example_defs)
qed

text \<open>
  C5. A run of hybrid_search calls the relational expander at most once. When the
  semantic retriever returned a hit, it is called once, with the identifier of the first
  semantic hit and depth 1, and its rows are the relational channel of the fusion. When the
  semantic retriever returned nothing, it is not called and the relational channel is
  empty.
\<close>

theorem relational_expander_once:
  "length (filter is_expander_call (snd (hybrid_search self q top_k))) \<le> 1
   \<and> (semantic_search self q 20 \<noteq> [] \<longrightarrow>
        filter is_expander_call (snd (hybrid_search self q top_k))
          = [GetRelatedEntries (entry_id (hd (semantic_search self q 20))) 1]
        \<and> fst (hybrid_search self q top_k)
          = fuse (semantic_search self q 20) (keyword_search self q 5)
              (get_related_entries self (entry_id (hd (semantic_search self q 20))) 1) top_k)
   \<and> (semantic_search self q 20 = [] \<longrightarrow>
        filter is_expander_call (snd (hybrid_search self q top_k)) = []
        \<and> fst (hybrid_search self q top_k) = fuse [] (keyword_search self q 5) [] top_k)"
  by (cases "semantic_search self q 20")
    (simp_all add: hybrid_search_def expand_top_hit_def Let_def)

theorem relational_expander_once_witness:
  "semantic_search lion_rag ''What do lions eat?'' 20 \<noteq> []
   \<and> filter is_expander_call (snd (hybrid_search lion_rag ''What do lions eat?'' 5))
       = [GetRelatedEntries ''Animals:Entry:Lion'' 1]
   \<and> semantic_search empty_rag ''What do lions eat?'' 20 = []
   \<and> filter is_expander_call (snd (hybrid_search empty_rag ''What do lions eat?'' 5)) = []"
  using relational_expander_once [of lion_rag "''What do lions eat?''" 5]
    relational_expander_once [of empty_rag "''What do lions eat?''" 5]
  by (simp add: example_defs)

subsection \<open>Insertion order and ties\<close>

lemma keys_map_entry: "map fst (AList.map_entry k f d) = map fst d"
  by (induction d) auto

lemma keys_add_semantic:
  "map fst (add_semantic r d)
     = (if entry_id r \<in> set (map fst d) then map fst d else map fst d @ [entry_id r])"
  by (simp add: add_semantic_def update_keys)

lemma keys_add_keyword:
  "map fst (add_keyword r d)
     = (if entry_id r \<in> set (map fst d) then map fst d else map fst d @ [entry_id r])"
  by (simp add: add_keyword_def update_keys keys_map_entry)

lemma keys_add_related:
  "map fst (add_related r s d)
     = (if entry_id r \<in> set (map fst d) then map fst d else map fst d @ [entry_id r])"
  by (simp add: add_related_def update_keys keys_map_entry)

lemma keys_fold:
  assumes "\<And>r d. map fst (f r d)
     = (if key r \<in> set (map fst d) then map fst d else map fst d @ [key r])"
  shows "map fst (fold f rs d) = map fst d @ new_keys (map fst d) (map key rs)"
  by (induction rs arbitrary: d) (simp_all add: assms)

lemma new_keys_cong: "set s = set s' \<Longrightarrow> new_keys s ks = new_keys s' ks"
proof (induction ks arbitrary: s s')
  case Nil
  then show ?case by simp
next
  case (Cons k ks)
  have a: "new_keys (s @ [k]) ks = new_keys (s' @ [k]) ks"
    by (rule Cons.IH) (simp add: Cons.prems)
  have b: "new_keys s ks = new_keys s' ks"
    by (rule Cons.IH) (rule Cons.prems)
  show ?case using Cons.prems a b by simp
qed

lemma set_new_keys: "set (s @ new_keys s ks) = set s \<union> set ks"
proof (induction ks arbitrary: s)
  case Nil
  then show ?case by simp
next
  case (Cons k ks)
  show ?case
  proof (cases "k \<in> set s")
    case True
    then show ?thesis using Cons.IH [of s] by auto
  next
    case False
    then show ?thesis using Cons.IH [of "s @ [k]"] by auto
  qed
qed

lemma merged_keys:
  assumes "merge_channels sem kw rel = Inr d"
  shows "map fst d = new_keys [] (map entry_id sem) @ new_keys (map entry_id sem) (map entry_id kw)
     @ new_keys (map entry_id sem @ map entry_id kw) (map entry_id rel)"
proof -
  let ?S = "map entry_id sem" and ?K = "map entry_id kw" and ?R = "map entry_id rel"
  let ?d1 = "fold add_semantic sem []"
  let ?d2 = "fold add_keyword kw ?d1"
  have k1: "map fst ?d1 = new_keys [] ?S"
    using keys_fold [of add_semantic entry_id sem "[]"] by (simp add: keys_add_semantic)
  have s1: "set (map fst ?d1) = set ?S"
    using set_new_keys [of "[]" ?S] by (simp add: k1)
  have k2: "map fst ?d2 = map fst ?d1 @ new_keys (map fst ?d1) ?K"
    using keys_fold [of add_keyword entry_id kw ?d1] by (simp add: keys_add_keyword)
  have n2: "new_keys (map fst ?d1) ?K = new_keys ?S ?K"
    by (rule new_keys_cong) (rule s1)
  have s2: "set (map fst ?d2) = set (?S @ ?K)"
    using set_new_keys [of "map fst ?d1" ?K] s1 by (simp add: k2)
  have d: "d = fold (\<lambda>r. add_related r (related_value (distance r))) rel ?d2"
    using assms by (simp add: merge_channels_fold)
  have k3: "map fst d = map fst ?d2 @ new_keys (map fst ?d2) ?R"
    unfolding d
    using keys_fold [of "\<lambda>r. add_related r (related_value (distance r))" entry_id rel ?d2]
    by (simp add: keys_add_related)
  have n3: "new_keys (map fst ?d2) ?R = new_keys (?S @ ?K) ?R"
    by (rule new_keys_cong) (rule s2)
  have "map fst d = map fst ?d2 @ new_keys (?S @ ?K) ?R"
    using k3 by (simp only: n3)
  moreover have "map fst ?d2 = new_keys [] ?S @ new_keys ?S ?K"
    using k2 n2 by (simp only: k1)
  ultimately show ?thesis
    by (simp only: append_assoc)
qed

lemma sorted_results_stable:
  "filter (\<lambda>h. combined_score h = c) (sorted_results hs) = filter (\<lambda>h. combined_score h = c) hs"
  using sort_key_stable [of "\<lambda>h. - combined_score h" "- c" hs]
  by (simp add: sorted_results_def)

lemma prefix_filter_slice_to: "prefix (filter P (slice_to xs k)) (filter P xs)"
proof -
  obtain n where n: "slice_to xs k = take n xs"
    by (cases "0 \<le> k") (simp_all add: slice_to_def)
  have "filter P xs = filter P (take n xs) @ filter P (drop n xs)"
    by (simp add: filter_append [symmetric] del: filter_append)
  then show ?thesis
    unfolding n by (rule prefixI)
qed

lemma fuse_tie_order:
  assumes "fuse sem kw rel top_k = Inr hits" and "merge_channels sem kw rel = Inr d"
  shows "prefix (filter (\<lambda>h. combined_score h = c) hits)
           (filter (\<lambda>h. combined_score h = c) (dict_values d))"
proof -
  have "hits = slice_to (sorted_results (dict_values d)) top_k"
    using assms by (simp add: fuse_def)
  then show ?thesis
    using prefix_filter_slice_to [of "\<lambda>h. combined_score h = c" "sorted_results (dict_values d)" top_k]
    by (simp add: sorted_results_stable)
qed

text \<open>
  C10. The list that hybrid_search returns is determined by the outputs of the three
  channels: two runs with the same outputs return the same list. The merged hits stand
  in the dict in insertion order, which is: the entities of the semantic channel in
  channel order, then those only the keyword channel adds, then those only the relational
  channel adds. The sort is stable: for every score, the returned hits with that combined
  score are an initial part of the merged hits with that score, in insertion order.
\<close>

theorem hybrid_search_deterministic_order:
  "(semantic_search self q 20 = semantic_search self' q' 20
      \<and> keyword_search self q 5 = keyword_search self' q' 5
      \<and> fst (expand_top_hit self (semantic_search self q 20))
          = fst (expand_top_hit self' (semantic_search self' q' 20))
      \<longrightarrow> fst (hybrid_search self q top_k) = fst (hybrid_search self' q' top_k))
   \<and> (\<exists>d hits.
         merge_channels (semantic_search self q 20) (keyword_search self q 5)
           (fst (expand_top_hit self (semantic_search self q 20))) = Inr d
       \<and> fst (hybrid_search self q top_k) = Inr hits
       \<and> map entry_id (dict_values d)
           = new_keys [] (map entry_id (semantic_search self q 20))
             @ new_keys (map entry_id (semantic_search self q 20))
                 (map entry_id (keyword_search self q 5))
             @ new_keys (map entry_id (semantic_search self q 20)
                          @ map entry_id (keyword_search self q 5))
                 (map entry_id (fst (expand_top_hit self (semantic_search self q 20))))
       \<and> (\<forall>c. prefix (filter (\<lambda>h. combined_score h = c) hits)
                 (filter (\<lambda>h. combined_score h = c) (dict_values d))))"
proof -
  let ?sem = "semantic_search self q 20" and ?kw = "keyword_search self q 5"
  let ?rel = "fst (expand_top_hit self (semantic_search self q 20))"
  obtain d where d: "merge_channels ?sem ?kw ?rel = Inr d"
    by (simp add: merge_channels_fold)
  obtain hits where f: "fuse ?sem ?kw ?rel top_k = Inr hits"
    by (simp add: fuse_merged)
  have "map entry_id (dict_values d) = map fst d"
    using well_keyed_merged [OF d] by (rule dict_values_ids)
  then have keys: "map entry_id (dict_values d)
           = new_keys [] (map entry_id ?sem) @ new_keys (map entry_id ?sem) (map entry_id ?kw)
             @ new_keys (map entry_id ?sem @ map entry_id ?kw) (map entry_id ?rel)"
    using merged_keys [OF d] by simp
  have ties: "\<forall>c. prefix (filter (\<lambda>h. combined_score h = c) hits)
                 (filter (\<lambda>h. combined_score h = c) (dict_values d))"
    using fuse_tie_order [OF f d] by simp
  have "fst (hybrid_search self q top_k) = Inr hits"
    using f by (simp add: hybrid_search_fuse)
  with d keys ties show ?thesis
    by (auto simp: hybrid_search_fuse)
qed

lemma tie_search:
  "fst (hybrid_search tie_rag q 5) = Inr [lion_hit, hyena_hit, leopard_hit]"
  by (simp add: tie_rag_def leopard_related_def leopard_hit_def example_defs fusion_defs)

theorem hybrid_search_deterministic_order_witness:
  "fst (hybrid_search tie_rag ''What do lions eat?'' 5) = Inr [lion_hit, hyena_hit, leopard_hit]
   \<and> combined_score hyena_hit = combined_score leopard_hit
   \<and> new_keys [] (map entry_id (semantic_search tie_rag ''What do lions eat?'' 20))
       @ new_keys (map entry_id (semantic_search tie_rag ''What do lions eat?'' 20))
           (map entry_id (keyword_search tie_rag ''What do lions eat?'' 5))
       @ new_keys (map entry_id (semantic_search tie_rag ''What do lions eat?'' 20)
                    @ map entry_id (keyword_search tie_rag ''What do lions eat?'' 5))
           (map entry_id (fst (expand_top_hit tie_rag (semantic_search tie_rag ''What do lions eat?'' 20))))
     = [''Animals:Entry:Lion'', ''Animals:Entry:Hyena'', ''Animals:Entry:Leopard'']"
  using hybrid_search_deterministic_order
    [of tie_rag "''What do lions eat?''" tie_rag "''What do lions eat?''" 5]
  by (simp add: tie_search)
    (simp add: tie_rag_def leopard_related_def leopard_hit_def example_defs expand_top_hit_def)

subsection \<open>The context assembler\<close>

lemma length_rendered_blocks: "length (rendered_blocks i es) = length es"
  by (induction es arbitrary: i) simp_all

lemma context_loop_blocks:
  "\<exists>n\<le>length es.
     context_loop i es m parts cur = parts @ take n (rendered_blocks i es)
     \<and> (0 < n \<longrightarrow> cur + int (length (concat (take n (rendered_blocks i es)))) \<le> m)
     \<and> (n < length es \<longrightarrow> m < cur + int (length (concat (take (Suc n) (rendered_blocks i es)))))"
proof (induction es arbitrary: i parts cur)
  case Nil
  then show ?case by simp
next
  case (Cons e es)
  let ?part = "format_part i e"
  show ?case
  proof (cases "cur + int (length ?part) > m")
    case True
    then have "context_loop i (e # es) m parts cur = parts @ take 0 (rendered_blocks i (e # es))
      \<and> m < cur + int (length (concat (take (Suc 0) (rendered_blocks i (e # es)))))"
      by simp
    then show ?thesis by blast
  next
    case False
    obtain n where n: "n \<le> length es"
      and loop: "context_loop (i + 1) es m (parts @ [?part]) (cur + int (length ?part))
          = (parts @ [?part]) @ take n (rendered_blocks (i + 1) es)"
      and fits: "0 < n \<longrightarrow> (cur + int (length ?part))
          + int (length (concat (take n (rendered_blocks (i + 1) es)))) \<le> m"
      and stops: "n < length es \<longrightarrow> m < (cur + int (length ?part))
          + int (length (concat (take (Suc n) (rendered_blocks (i + 1) es))))"
      using Cons.IH [of "i + 1" "parts @ [?part]" "cur + int (length ?part)"] by blast
    have a: "context_loop i (e # es) m parts cur = parts @ take (Suc n) (rendered_blocks i (e # es))"
      using False loop by (simp add: Let_def)
    have b: "cur + int (length (concat (take (Suc n) (rendered_blocks i (e # es))))) \<le> m"
      using False fits by (cases "n = 0") simp_all
    have c: "Suc n < length (e # es) \<longrightarrow>
        m < cur + int (length (concat (take (Suc (Suc n)) (rendered_blocks i (e # es)))))"
      using stops by (simp add: add.assoc)
    have "Suc n \<le> length (e # es)" using n by simp
    with a b c show ?thesis by blast
  qed
qed

lemma build_context_blocks:
  "\<exists>n\<le>length entries.
     build_context entries m = concat (take n (rendered_blocks 1 entries))
     \<and> (0 < n \<longrightarrow> int (length (concat (take n (rendered_blocks 1 entries)))) \<le> m)
     \<and> (n < length entries \<longrightarrow>
          m < int (length (concat (take (Suc n) (rendered_blocks 1 entries)))))"
  using context_loop_blocks [of entries 1 m "[]" 0] by (auto simp: build_context_def)

lemma build_context_bound:
  assumes "0 \<le> m"
  shows "int (length (build_context entries m)) \<le> m"
proof -
  obtain n where e: "build_context entries m = concat (take n (rendered_blocks 1 entries))"
    and f: "0 < n \<longrightarrow> int (length (concat (take n (rendered_blocks 1 entries)))) \<le> m"
    using build_context_blocks [of entries m] by blast
  show ?thesis
    using e f assms by (cases "n = 0") simp_all
qed

lemma first_block_bound:
  assumes "entries \<noteq> []"
    and "list_all (\<lambda>b. int (length b) \<le> m) (rendered_blocks 1 entries)"
  shows "0 \<le> m"
proof -
  obtain e es where "entries = e # es"
    using assms(1) by (cases entries) auto
  then have "int (length (format_part 1 e)) \<le> m"
    using assms(2) by simp
  then show ?thesis by linarith
qed

text \<open>
  C6. For every ranked list and every character budget max_length, build_context returns
  the first \<open>n\<close> rendered blocks, whole and in ranked order, where these \<open>n\<close> blocks fit
  into max_length and the next block, if there is one, would push the length past
  max_length. The returned text is not longer than the budget (a number of characters,
  so not negative), in particular when each block is at most max_length long. For the
  empty list it returns the empty string.
\<close>

theorem build_context_whole_blocks:
  "(\<exists>n\<le>length entries.
      build_context entries m = concat (take n (rendered_blocks 1 entries))
      \<and> (0 < n \<longrightarrow> int (length (concat (take n (rendered_blocks 1 entries)))) \<le> m)
      \<and> (n < length entries \<longrightarrow>
           m < int (length (concat (take (Suc n) (rendered_blocks 1 entries))))))
   \<and> (0 \<le> m \<longrightarrow> int (length (build_context entries m)) \<le> m)
   \<and> (entries \<noteq> [] \<and> list_all (\<lambda>b. int (length b) \<le> m) (rendered_blocks 1 entries)
        \<longrightarrow> int (length (build_context entries m)) \<le> m)
   \<and> build_context [] m = []"
proof -
  have "int (length (build_context entries m)) \<le> m"
    if "entries \<noteq> []" and "list_all (\<lambda>b. int (length b) \<le> m) (rendered_blocks 1 entries)"
    using that by (intro build_context_bound first_block_bound)
  moreover have "build_context [] m = []"
    by (simp add: build_context_def)
  ultimately show ?thesis
    using build_context_blocks [of entries m] build_context_bound [of m entries] by blast
qed

theorem build_context_whole_blocks_witness:
  "build_context [lion_hit, hyena_hit] 100 = format_part 1 lion_hit
   \<and> (0::int) \<le> 100 \<and> int (length (build_context [lion_hit, hyena_hit] 100)) \<le> 100
   \<and> (100::int) < int (length (format_part 1 lion_hit @ format_part 2 hyena_hit))"
  using build_context_whole_blocks [of "[lion_hit, hyena_hit]" 100]
  by (simp add: build_context_def format_part_def lion_hit_def hyena_hit_def)

subsection \<open>The orchestrator\<close>

lemma hybrid_search_calls:
  "snd (hybrid_search self q top_k)
     = [SemanticSearch q 20, KeywordSearch q 5] @ snd (expand_top_hit self (semantic_search self q 20))"
  by (simp add: hybrid_search_def Let_def split_beta)

lemma search_makes_no_generation_call:
  "filter is_generation_call (snd (hybrid_search self q top_k)) = []"
  by (cases "semantic_search self q 20") (simp_all add: hybrid_search_calls expand_top_hit_def)

lemma query_not_found:
  assumes "fst (hybrid_search self q 5) = Inr []"
  shows "query self q =
     (Inr \<lparr>answer = JString not_found_answer, sources = [], context_text = None\<rparr>,
      snd (hybrid_search self q 5))"
  using assms by (simp add: query_def split_beta)

lemma fuse_no_hits: "fuse [] [] [] top_k = Inr []"
  by (simp add: fuse_def merge_channels_def dict_values_def sorted_results_def slice_to_def)

text \<open>
  C7. When the fused list is empty, query returns the not-found answer with no sources,
  and it has made the calls of the search only: the context assembler and the generation
  service are not called. This is the case in particular when the semantic and the keyword
  retriever return no hits (the relational expander is then not called).
\<close>

theorem query_empty_result:
  "(fst (hybrid_search self q 5) = Inr [] \<longrightarrow>
      fst (query self q)
        = Inr \<lparr>answer = JString not_found_answer, sources = [], context_text = None\<rparr>
      \<and> snd (query self q) = snd (hybrid_search self q 5)
      \<and> filter is_generation_call (snd (query self q)) = [])
   \<and> (semantic_search self q 20 = [] \<and> keyword_search self q 5 = [] \<longrightarrow>
      query self q
        = (Inr \<lparr>answer = JString not_found_answer, sources = [], context_text = None\<rparr>,
           [SemanticSearch q 20, KeywordSearch q 5]))"
proof -
  have a: "fst (hybrid_search self q 5) = Inr [] \<Longrightarrow>
      fst (query self q)
        = Inr \<lparr>answer = JString not_found_answer, sources = [], context_text = None\<rparr>
      \<and> snd (query self q) = snd (hybrid_search self q 5)
      \<and> filter is_generation_call (snd (query self q)) = []"
    by (simp add: query_not_found search_makes_no_generation_call)
  have b: "query self q
        = (Inr \<lparr>answer = JString not_found_answer, sources = [], context_text = None\<rparr>,
           [SemanticSearch q 20, KeywordSearch q 5])"
    if "semantic_search self q 20 = []" and "keyword_search self q 5 = []"
  proof -
    have "fst (hybrid_search self q 5) = Inr []"
      using that by (simp add: hybrid_search_fuse expand_top_hit_def fuse_no_hits)
    moreover have "snd (hybrid_search self q 5) = [SemanticSearch q 20, KeywordSearch q 5]"
      using that by (simp add: hybrid_search_calls expand_top_hit_def)
    ultimately show ?thesis by (simp add: query_not_found)
  qed
  from a b show ?thesis by blast
qed

theorem query_empty_result_witness:
  "fst (hybrid_search empty_rag ''What do lions eat?'' 5) = Inr []
   \<and> semantic_search empty_rag ''What do lions eat?'' 20 = []
   \<and> keyword_search empty_rag ''What do lions eat?'' 5 = []
   \<and> query empty_rag ''What do lions eat?''
        = (Inr \<lparr>answer = JString not_found_answer, sources = [], context_text = None\<rparr>,
           [SemanticSearch ''What do lions eat?'' 20, KeywordSearch ''What do lions eat?'' 5])
   \<and> filter is_generation_call (snd (query empty_rag ''What do lions eat?'')) = []"
proof -
  have s: "semantic_search empty_rag ''What do lions eat?'' 20 = []"
    and k: "keyword_search empty_rag ''What do lions eat?'' 5 = []"
    by (simp_all add: empty_rag_def)
  have h: "fst (hybrid_search empty_rag ''What do lions eat?'' 5) = Inr []"
    by (simp add: hybrid_search_fuse s k expand_top_hit_def fuse_no_hits)
  from query_empty_result [of empty_rag "''What do lions eat?''"] s k h
  show ?thesis by simp
qed

lemma try_generate_failure:
  assumes "generation_failure self p = Some e"
  shows "try_generate self p = Inl (RequestException e)"
  using assms
  by (auto simp: generation_failure_def try_generate_def raise_for_status_def response_json_def
      split: sum.splits if_splits)

lemma generate_answer_failure:
  assumes "generation_failure self (make_payload self q ctx) = Some e"
  shows "fst (generate_answer_ollama self q ctx)
    = Inr (JString (''Error communicating with Ollama: '' @ str_exception e))"
  using try_generate_failure [OF assms] by (simp add: generate_answer_ollama_def Let_def)

text \<open>
  C9. When the call to the generation service fails with an exception \<open>e\<close> (the timeout
  of 120 seconds included), generate_answer_ollama returns the text
  "Error communicating with Ollama: " followed by the message of \<open>e\<close>; and query,
  when the search found hits, returns this text as its answer together with the sources
  and the context text of the hits.
\<close>

theorem generation_failure_inline:
  "(generation_failure self (make_payload self q ctx) = Some e \<longrightarrow>
      fst (generate_answer_ollama self q ctx)
        = Inr (JString (''Error communicating with Ollama: '' @ str_exception e)))
   \<and> (fst (hybrid_search self q 5) = Inr hits \<and> hits \<noteq> []
       \<and> generation_failure self (make_payload self q (build_context hits 4000)) = Some e \<longrightarrow>
      fst (query self q)
        = Inr \<lparr>answer = JString (''Error communicating with Ollama: '' @ str_exception e),
               sources = map source_of hits,
               context_text = Some (build_context hits 4000)\<rparr>)"
proof -
  have "fst (query self q)
        = Inr \<lparr>answer = JString (''Error communicating with Ollama: '' @ str_exception e),
               sources = map source_of hits,
               context_text = Some (build_context hits 4000)\<rparr>"
    if h: "fst (hybrid_search self q 5) = Inr hits" and n: "hits \<noteq> []"
      and g: "generation_failure self (make_payload self q (build_context hits 4000)) = Some e"
    using h n generate_answer_failure [OF g]
    by (simp add: query_def split_beta Let_def)
  then show ?thesis
    using generate_answer_failure [of self q ctx e] by blast
qed

lemma offline_failure:
  "generation_failure offline_rag p = Some (Timeout ''Read timed out.'')"
  by (simp add: generation_failure_def offline_rag_def)

lemma offline_search:
  "fst (hybrid_search offline_rag q 5) = Inr [lion_hit, hyena_hit]"
  by (simp add: example_defs fusion_defs)

theorem generation_failure_inline_witness:
  "generation_failure offline_rag
      (make_payload offline_rag ''What do lions eat?'' (build_context [lion_hit, hyena_hit] 4000))
     = Some (Timeout ''Read timed out.'')
   \<and> fst (hybrid_search offline_rag ''What do lions eat?'' 5) = Inr [lion_hit, hyena_hit]
   \<and> fst (query offline_rag ''What do lions eat?'')
       = Inr \<lparr>answer = JString ''Error communicating with Ollama: Read timed out.'',
              sources = map source_of [lion_hit, hyena_hit],
              context_text = Some (build_context [lion_hit, hyena_hit] 4000)\<rparr>"
  using generation_failure_inline [of offline_rag "''What do lions eat?''"
      "build_context [lion_hit, hyena_hit] 4000" "Timeout ''Read timed out.''" "[lion_hit, hyena_hit]"]
  by (simp add: offline_failure offline_search)

subsection \<open>The relational expander\<close>

text \<open>What holds of the rows for every graph, seed and depth: at most five, by distance.\<close>

lemma related_entries_bounded_sorted:
  "length (get_related_entries_on g seed depth) \<le> 5
   \<and> sorted (map distance (get_related_entries_on g seed depth))"
  by (simp add: get_related_entries_on_def take_map [symmetric])

text \<open>
  C8. The claim that the rows are distinct entities, each with the length of a shortest
  path, does not hold of the query: with depth 2 on the graph \<open>savanna\<close>, Hyena is
  reached from Lion by a path of length 1 and, through Leopard, by a path of length 2.
  The two rows differ in their distance, so \<^verbatim>\<open>DISTINCT\<close> keeps both: the identifier of
  Hyena occurs twice, the second time with a distance that is not the shortest.
\<close>

theorem get_related_entries_repeats_entity:
  "map (\<lambda>r. (entry_id r, distance r)) (get_related_entries_on savanna ''Animals:Entry:Lion'' 2)
     = [(''Animals:Entry:Hyena'', 1), (''Animals:Entry:Leopard'', 1), (''Animals:Entry:Hyena'', 2)]
   \<and> \<not> distinct (map entry_id (get_related_entries_on savanna ''Animals:Entry:Lion'' 2))"
proof -
  have rows: "map (\<lambda>r. (entry_id r, distance r))
      (get_related_entries_on savanna ''Animals:Entry:Lion'' 2)
     = [(''Animals:Entry:Hyena'', 1), (''Animals:Entry:Leopard'', 1), (''Animals:Entry:Hyena'', 2)]"
    by code_simp
  have "map entry_id (get_related_entries_on savanna ''Animals:Entry:Lion'' 2)
     = map fst (map (\<lambda>r. (entry_id r, distance r))
         (get_related_entries_on savanna ''Animals:Entry:Lion'' 2))"
    by simp
  then have "\<not> distinct (map entry_id (get_related_entries_on savanna ''Animals:Entry:Lion'' 2))"
    by (simp only: rows) simp
  with rows show ?thesis by simp
qed

end
